theory Spec2Isabelle
  imports Main "HOL-Library.Sublist"
begin

section \<open>The dropdown tester: data model\<close>

text \<open>
  The repository holds several evolutions of one test harness.  The model follows the
  latest one, class \<open>CompactDropdownTester\<close> with tile and sort-by validation, and
  also embeds \<open>executeWithRetry\<close> of class \<open>CompleteDropdownTester\<close>
  (dropdown-validator3.js) and \<open>testSingleCombination\<close> of the earlier
  CompactDropdownTester of dropdown-validator5.js, which differ.  Their functions carry
  the suffixes \<open>_v3\<close> and \<open>_v5\<close>.

  The browser is an external collaborator.  It is a state of an arbitrary type \<open>'p\<close>
  (the session together with the page under test) and a record of calls; every call
  may reject (\<open>Inl\<close>) and may change the page.  Wall-clock time (\<open>delay\<close>,
  \<open>updateActivity\<close>, timestamps), the console, and the execution and error log files,
  which the program only appends to and never reads, are left out; appending to a log
  file is taken to succeed.  The two interval timers are not interleaved with the run.
  The model starts after \<open>initializeDriver\<close> has succeeded, so \<open>this.driver\<close> is
  not null.  Operation names are the string literals the program passes; none of them
  is a property name of \<open>Object.prototype\<close>, so \<open>this.retryCounts[opName]\<close> and
  \<open>actions[opName]\<close> are lookups of own properties.
\<close>

datatype error =
    OpFailedAfter string nat
      \<comment> \<open>\<open>`${opName} failed after ${maxRetries} attempts`\<close>\<close>
  | OperationFailedAfter string nat "error option"
      \<comment> \<open>CompleteDropdownTester:
          \<open>`Operation ${operationName} failed after ${maxRetries} attempts: ${lastError?.message}`\<close>\<close>
  | SelectionFailed
  | VerificationFailed
  | NoOptionsFor nat
      \<comment> \<open>\<open>`No options for dropdown ${index + 1}`\<close>, carrying \<open>index + 1\<close>\<close>
  | NoDropdowns
  | DropdownHasNoOptions nat
  | VerificationFailedFor nat string
      \<comment> \<open>\<open>`Verification failed for dropdown ${i + 1}. Expected: ${value}`\<close>\<close>
  | DriverError string
      \<comment> \<open>a rejection by the webdriver or by a script in the page\<close>

type_synonym element = nat

record dropdownOption =
  opt_value :: string
  opt_text :: string
  opt_index :: nat

record domOption =
  dom_value :: string
  dom_text :: string
  dom_disabled :: bool

record tileInfo =
  ti_total :: nat
  ti_visible :: nat
  ti_hasNoResultsMessage :: bool
  ti_noResultsElement :: "string option"
    \<comment> \<open>\<open>noResultsElement?.text\<close>: \<open>None\<close> when the element is null\<close>
  ti_noResultsType :: "string option"
  ti_tileDetails :: "string list"

record recheckData =
  rc_allTilesCount :: nat
  rc_hiddenTilesCount :: nat
  rc_hasNoResultsMessage :: bool
  rc_noResultsText :: string

record noResultsValidation =
  nrv_found :: bool
  nrv_isVisible :: bool
  nrv_message :: "string option"

datatype sortStatus =
  Sort_VALIDATED_WITH_NO_RESULTS | Sort_VALIDATED_NO_TILES | Sort_NOT_APPLICABLE | Sort_VALIDATED
  | Sort_ERROR

datatype sortReason =
    NoTilesWithMessage
      \<comment> \<open>'No tiles found with "no results" message properly displayed'\<close>
  | ExpectedNoTiles
      \<comment> \<open>'Expected no tiles for this combination'\<close>
  | InsufficientTiles
      \<comment> \<open>'Insufficient tiles for sort validation (need at least 2 tiles)'\<close>
  | NoSortControls
      \<comment> \<open>'No sort controls found on page'\<close>
  | FromScript
      \<comment> \<open>whatever the sort script in the page reported\<close>
  | NotEvaluatedYet

record sortValidation =
  sv_status :: sortStatus
  sv_reason :: sortReason
  sv_tilesToSort :: nat
  sv_sortValidationApplicable :: bool
  sv_sortControlsFound :: nat
  sv_currentSortStatus :: "string option"

datatype comboStatus = PASSED | FAILED

datatype tileStatus =
  NOT_VALIDATED | VALIDATED | NO_TILES_WITH_MESSAGE | NO_VISIBLE_TILES | VALIDATED_WITH_NO_RESULTS
  | HAS_MESSAGE_BUT_NOT_EXPECTED | ERROR

record tileValidation = tileInfo +
  tv_status :: tileStatus

datatype recordedOption =
    Entry nat string string
      \<comment> \<open>\<open>{ dropdown: `Dropdown ${i + 1}`, value, text }\<close>, carrying \<open>i + 1\<close>\<close>
  | Raw dropdownOption
      \<comment> \<open>an option object as extracted, in the synthetic failure record\<close>

datatype resultError =
    NoError
  | Thrown error
      \<comment> \<open>\<open>error.message\<close> of what the try block threw\<close>
  | ExpectedBehavior string
      \<comment> \<open>\<open>`Expected behavior: "${noResultsText.substring(0, 100)}..."`\<close>\<close>
  | NotTheExpectedMessage string
  | ExpectedNoVisibleTiles
  | FailedToSelect string nat
      \<comment> \<open>\<open>`Failed to select "${opt.text}" in dropdown ${idx + 1}`\<close>\<close>

record comboResult =
  cr_number :: nat
  cr_options :: "recordedOption list"
  cr_status :: comboStatus
  cr_error :: resultError
  cr_tileTotal :: nat
  cr_tileVisible :: nat
  cr_tileStatus :: tileStatus
  cr_hasNoResultsMessage :: bool
  cr_noResultsText :: string
  cr_tileDetails :: "string list"
  cr_sortByValidation :: sortValidation

type_synonym ('p, 'a) call = "'p \<Rightarrow> (error + 'a) \<times> 'p"

record 'p driver =
  wdDeleteAllCookies :: "('p, unit) call"
  wdRefresh :: "('p, unit) call"
  wdQuit :: "('p, unit) call"
  wdClearLocalStorage :: "('p, unit) call"
  wdClearSessionStorage :: "('p, unit) call"
  wdScrollTop :: "('p, unit) call"
  wdOptions :: "element \<Rightarrow> ('p, domOption list option) call"
    \<comment> \<open>the options of the inner select; \<open>None\<close> when the element has no select\<close>
  wdSetValue :: "element \<Rightarrow> string \<Rightarrow> ('p, bool) call"
    \<comment> \<open>the selection script: false when there is no select, else it assigns the value,
        dispatches change, input, click and returns true\<close>
  wdCheckValue :: "element \<Rightarrow> string \<Rightarrow> ('p, bool) call"
    \<comment> \<open>\<open>select ? select.value === val : false\<close>\<close>
  wdDetectTiles :: "('p, tileInfo) call"
  wdCountTiles :: "('p, tileInfo) call"
    \<comment> \<open>the tile script of dropdown-validator5.js: total, visible, tileDetails\<close>
  wdRecheck :: "('p, recheckData) call"
  wdNoResults :: "('p, noResultsValidation) call"
  wdSortControls :: "('p, bool) call"
    \<comment> \<open>field \<open>exists\<close> of the sort-controls script\<close>
  wdSortScript :: "('p, sortValidation) call"

datatype event =
    SelectedOption nat string
      \<comment> \<open>'Selected option', with \<open>dropdown: dropdownIndex + 1\<close> and the value\<close>
  | SucceededOnAttempt string nat
  | Msg string

record 'p tester =
  page :: 'p
  retryCounts :: "string \<rightharpoonup> nat"
  totalTests :: nat
  passedTests :: nat
  failedTests :: nat
  currentOperation :: "string option"
  isRecovering :: bool
  validationBuffer :: "event list"
  validationLog :: "event list"
    \<comment> \<open>what has been appended to validation.log\<close>

type_synonym ('p, 'a) action = "'p tester \<Rightarrow> (error + 'a) \<times> 'p tester"

definition driverCall :: "('p, 'a) call \<Rightarrow> ('p, 'a) action" where
  "driverCall f s = (case f (page s) of (r, p') \<Rightarrow> (r, s\<lparr>page := p'\<rparr>))"

text \<open>
  \<open>dropdownElements[i]\<close> is undefined out of range; a script that receives it throws on
  \<open>el.tagName\<close>, so the call rejects.
\<close>

definition at :: "'a list \<Rightarrow> nat \<Rightarrow> 'a option" where
  "at xs i = (if i < length xs then Some (xs ! i) else None)"

definition elementCall :: "(element \<Rightarrow> ('p, 'a) call) \<Rightarrow> element option \<Rightarrow> ('p, 'a) action" where
  "elementCall f el s =
     (case el of None \<Rightarrow> (Inl (DriverError ''TypeError''), s)
      | Some e \<Rightarrow> driverCall (f e) s)"

definition retryCount :: "'p tester \<Rightarrow> string \<Rightarrow> nat" where
  \<comment> \<open>\<open>this.retryCounts[opName] || 0\<close>\<close>
  "retryCount s opName = (case retryCounts s opName of None \<Rightarrow> 0 | Some c \<Rightarrow> c)"

subsection \<open>Validation log capture\<close>

definition flushValidationBuffer :: "'p tester \<Rightarrow> 'p tester" where
  "flushValidationBuffer s =
     (if validationBuffer s = [] then s
      else s\<lparr>validationLog := validationLog s @ validationBuffer s, validationBuffer := []\<rparr>)"

definition captureValidation :: "event \<Rightarrow> bool \<Rightarrow> 'p tester \<Rightarrow> 'p tester" where
  "captureValidation e immediate s =
     (let s1 = s\<lparr>validationBuffer := validationBuffer s @ [e]\<rparr>
      in if immediate \<or> length (validationBuffer s1) \<ge> 50 then flushValidationBuffer s1
         else s1)"

definition captured :: "'p tester \<Rightarrow> event list" where
  \<comment> \<open>every entry captured so far, flushed or still buffered\<close>
  "captured s = validationLog s @ validationBuffer s"

section \<open>Retry and recovery\<close>

definition performRecovery :: "'p driver \<Rightarrow> string \<Rightarrow> ('p, unit) action" where
  "performRecovery D opName s =
     (if opName = ''navigation'' then driverCall (wdDeleteAllCookies D) s
      else if opName = ''dropdownFinding'' then driverCall (wdRefresh D) s
      else (Inr (), s))"

definition recordSuccess :: "string \<Rightarrow> nat \<Rightarrow> 'p tester \<Rightarrow> 'p tester" where
  \<comment> \<open>after \<open>opFn\<close> returned: the note when \<open>attempt > 1\<close>, then
      \<open>this.retryCounts[opName] = 0\<close>\<close>
  "recordSuccess opName attempt s =
     (let s1 = (if attempt > 1
                then captureValidation (SucceededOnAttempt opName attempt) True s else s)
      in s1\<lparr>retryCounts := (retryCounts s1)(opName \<mapsto> 0)\<rparr>)"

definition recordFailure :: "string \<Rightarrow> 'p tester \<Rightarrow> 'p tester" where
  \<comment> \<open>\<open>this.retryCounts[opName] = (this.retryCounts[opName] || 0) + 1\<close>\<close>
  "recordFailure opName s =
     s\<lparr>retryCounts := (retryCounts s)(opName \<mapsto> retryCount s opName + 1)\<rparr>"

function retryLoop ::
  "'p driver \<Rightarrow> string \<Rightarrow> ('p, 'a) action \<Rightarrow> nat \<Rightarrow> nat \<Rightarrow> ('p, 'a) action" where
  "retryLoop D opName opFn maxRetries attempt s =
     (if attempt \<le> maxRetries then
        (case opFn s of
           (Inr result, s1) \<Rightarrow> (Inr result, recordSuccess opName attempt s1)
         | (Inl err, s1) \<Rightarrow>
             (if attempt < maxRetries then
                (case performRecovery D opName (recordFailure opName s1) of
                   (Inl err', s2) \<Rightarrow> (Inl err', s2)
                 | (Inr u, s2) \<Rightarrow> retryLoop D opName opFn maxRetries (attempt + 1) s2)
              else retryLoop D opName opFn maxRetries (attempt + 1) (recordFailure opName s1)))
      else (Inl (OpFailedAfter opName maxRetries), s))"
  by pat_completeness auto
termination
  by (relation "measure (\<lambda>(D, opName, opFn, maxRetries, attempt, s). maxRetries + 1 - attempt)")
     auto

declare retryLoop.simps [simp del]

definition executeWithRetry ::
  "'p driver \<Rightarrow> string \<Rightarrow> ('p, 'a) action \<Rightarrow> nat \<Rightarrow> ('p, 'a) action" where
  "executeWithRetry D opName opFn maxRetries s =
     retryLoop D opName opFn maxRetries 1 (s\<lparr>currentOperation := Some opName\<rparr>)"

subsection \<open>CompleteDropdownTester (dropdown-validator3.js)\<close>

definition ignoreErrors :: "('p, 'a) action \<Rightarrow> 'p tester \<Rightarrow> 'p tester" where
  \<comment> \<open>\<open>try { ... } catch (e) { }\<close>\<close>
  "ignoreErrors f s = snd (f s)"

definition performRecovery_v3 :: "'p driver \<Rightarrow> string \<Rightarrow> 'p tester \<Rightarrow> 'p tester" where
  "performRecovery_v3 D operationName s =
     (if operationName = ''navigation'' then
        ignoreErrors (\<lambda>s0.
          case driverCall (wdDeleteAllCookies D) s0 of
            (Inl e, s1) \<Rightarrow> (Inl e, s1)
          | (Inr u, s1) \<Rightarrow>
              (case driverCall (wdClearLocalStorage D) s1 of
                 (Inl e, s2) \<Rightarrow> (Inl e, s2)
               | (Inr u', s2) \<Rightarrow> driverCall (wdClearSessionStorage D) s2)) s
      else if operationName = ''dropdownFinding'' then
        ignoreErrors (driverCall (wdRefresh D)) s
      else s)"

definition truthy :: "nat option \<Rightarrow> bool" where
  \<comment> \<open>\<open>if (this.retryCounts[operationName])\<close>: undefined and 0 are falsy\<close>
  "truthy c = (case c of None \<Rightarrow> False | Some n \<Rightarrow> n \<noteq> 0)"

definition logValidation_v3 :: "event \<Rightarrow> 'p tester \<Rightarrow> 'p tester" where
  \<comment> \<open>this class has no buffer: the entry is appended to validation.log at once\<close>
  "logValidation_v3 e s = s\<lparr>validationLog := validationLog s @ [e]\<rparr>"

function retryLoop_v3 ::
  "'p driver \<Rightarrow> string \<Rightarrow> ('p, 'a) action \<Rightarrow> nat \<Rightarrow> nat \<Rightarrow> error option \<Rightarrow> ('p, 'a) action"
  where
  "retryLoop_v3 D operationName operationFn maxRetries attempt lastError s =
     (if attempt \<le> maxRetries then
        (case operationFn s of
           (Inr result, s1) \<Rightarrow>
             (let s2 = (if attempt > 1
                        then logValidation_v3 (SucceededOnAttempt operationName attempt) s1
                        else s1)
              in (Inr result,
                  if truthy (retryCounts s2 operationName)
                  then s2\<lparr>retryCounts := (retryCounts s2)(operationName \<mapsto> 0)\<rparr> else s2))
         | (Inl err, s1) \<Rightarrow>
             retryLoop_v3 D operationName operationFn maxRetries (attempt + 1) (Some err)
               ((if attempt < maxRetries then performRecovery_v3 D operationName else id)
                  (if truthy (retryCounts s1 operationName)
                   then s1\<lparr>retryCounts :=
                          (retryCounts s1)(operationName \<mapsto> retryCount s1 operationName + 1)\<rparr>
                   else s1)))
      else (Inl (OperationFailedAfter operationName maxRetries lastError), s))"
  by pat_completeness auto
termination
  by (relation "measure (\<lambda>(D, n, f, maxRetries, attempt, e, s). maxRetries + 1 - attempt)") auto

declare retryLoop_v3.simps [simp del]

definition executeWithRetry_v3 ::
  "'p driver \<Rightarrow> string \<Rightarrow> ('p, 'a) action \<Rightarrow> nat \<Rightarrow> ('p, 'a) action" where
  "executeWithRetry_v3 D operationName operationFn maxRetries s =
     retryLoop_v3 D operationName operationFn maxRetries 1 None s"

section \<open>Stuck detection and recovery\<close>

fun includesStr :: "string \<Rightarrow> string \<Rightarrow> bool" where
  \<comment> \<open>\<open>haystack.includes(needle)\<close>\<close>
  "includesStr [] needle = (needle = [])"
| "includesStr (c # cs) needle = (prefix needle (c # cs) \<or> includesStr cs needle)"

definition maxRetries_stuckRecovery :: nat where
  "maxRetries_stuckRecovery = 2"

definition hardRestart :: "'p driver \<Rightarrow> 'p tester \<Rightarrow> 'p tester" where
  "hardRestart D s =
     captureValidation (Msg ''Restart complete'') True
       (ignoreErrors (driverCall (wdQuit D))
          (flushValidationBuffer
             (captureValidation (Msg ''INITIATING HARD RESTART'') True s)))"

definition softRecovery :: "'p driver \<Rightarrow> ('p, unit) action" where
  \<comment> \<open>the body of the try block of \<open>recoverFromStuckState\<close>, before 'Recovery successful'\<close>
  "softRecovery D s =
     (case currentOperation s of
        None \<Rightarrow> (Inr (), s)
      | Some opn \<Rightarrow>
          if includesStr opn ''navigation'' then driverCall (wdRefresh D) s
          else if includesStr opn ''dropdown'' then driverCall (wdScrollTop D) s
          else (Inr (), s))"

definition beginRecovery :: "'p tester \<Rightarrow> 'p tester" where
  \<comment> \<open>from \<open>this.isRecovering = true\<close> to the note 'Attempting stuck recovery'\<close>
  "beginRecovery s =
     captureValidation (Msg ''Attempting stuck recovery'') True
       (s\<lparr>isRecovering := True,
          retryCounts := (retryCounts s)(''stuckRecovery'' \<mapsto> retryCount s ''stuckRecovery'' + 1)\<rparr>)"

definition recoverFromStuckState :: "'p driver \<Rightarrow> 'p tester \<Rightarrow> 'p tester" where
  "recoverFromStuckState D s =
     (if isRecovering s then s
      else
        (case softRecovery D (beginRecovery s) of
           (Inr u, s1) \<Rightarrow> captureValidation (Msg ''Recovery successful'') True s1
         | (Inl e, s1) \<Rightarrow>
             (let s2 = captureValidation (Msg ''Recovery failed'') True s1
              in if retryCount s2 ''stuckRecovery'' \<ge> maxRetries_stuckRecovery
                 then hardRestart D s2 else s2))
        \<lparr>isRecovering := False\<rparr>)"

section \<open>Dropdown options and selection\<close>

definition extractOptions :: "domOption list \<Rightarrow> dropdownOption list" where
  \<comment> \<open>\<open>filter(opt => !opt.disabled && opt.value !== undefined).map((opt, i) => ...)\<close>\<close>
  "extractOptions doms =
     map (\<lambda>(i, d). \<lparr>opt_value = dom_value d, opt_text = dom_text d, opt_index = i\<rparr>)
       (enumerate 0 (filter (\<lambda>d. \<not> dom_disabled d) doms))"

definition getDropdownOptions ::
  "'p driver \<Rightarrow> element option \<Rightarrow> nat \<Rightarrow> ('p, dropdownOption list) action" where
  "getDropdownOptions D dropdownElement index =
     executeWithRetry D ''dropdownOptions''
       (\<lambda>s. case elementCall (wdOptions D) dropdownElement s of
               (Inl e, s1) \<Rightarrow> (Inl e, s1)
             | (Inr r, s1) \<Rightarrow>
                 (let options = (case r of None \<Rightarrow> [] | Some doms \<Rightarrow> extractOptions doms)
                  in if length options = 0 then (Inl (NoOptionsFor (index + 1)), s1)
                     else (Inr options, captureValidation (Msg ''Dropdown options'') True s1)))
       2"

definition selectDropdownOption ::
  "'p driver \<Rightarrow> element option \<Rightarrow> dropdownOption \<Rightarrow> nat \<Rightarrow> ('p, bool) action" where
  "selectDropdownOption D dropdownElement option dropdownIndex =
     executeWithRetry D ''selection''
       (\<lambda>s. case elementCall (\<lambda>el. wdSetValue D el (opt_value option)) dropdownElement s of
               (Inl e, s1) \<Rightarrow> (Inl e, s1)
             | (Inr success, s1) \<Rightarrow>
                 if \<not> success then (Inl SelectionFailed, s1)
                 else
                   (case elementCall (\<lambda>el. wdCheckValue D el (opt_value option))
                           dropdownElement s1 of
                      (Inl e, s2) \<Rightarrow> (Inl e, s2)
                    | (Inr verified, s2) \<Rightarrow>
                        if \<not> verified then (Inl VerificationFailed, s2)
                        else (Inr True,
                              captureValidation
                                (SelectedOption (dropdownIndex + 1) (opt_value option)) True s2)))
       2"

definition defaultOption :: "dropdownOption list \<Rightarrow> dropdownOption" where
  \<comment> \<open>\<open>opts.find(opt => opt.value === '') || opts[0]\<close>, for a list that is not empty\<close>
  "defaultOption opts =
     (case find (\<lambda>opt. opt_value opt = []) opts of Some opt \<Rightarrow> opt | None \<Rightarrow> opts ! 0)"

definition resetOne :: "'p driver \<Rightarrow> element list \<Rightarrow> nat \<Rightarrow> ('p, bool) action" where
  \<comment> \<open>the try block in the loop of \<open>resetNextDropdowns\<close>\<close>
  "resetOne D dropdownElements i s =
     (case getDropdownOptions D (at dropdownElements i) i s of
        (Inl e, s1) \<Rightarrow> (Inl e, s1)
      | (Inr opts, s1) \<Rightarrow>
          if length opts > 0
          then selectDropdownOption D (at dropdownElements i) (defaultOption opts) i s1
          else (Inr True, s1))"

function resetLoop :: "'p driver \<Rightarrow> element list \<Rightarrow> nat \<Rightarrow> 'p tester \<Rightarrow> 'p tester" where
  "resetLoop D dropdownElements i s =
     (if i < length dropdownElements
      then resetLoop D dropdownElements (i + 1) (ignoreErrors (resetOne D dropdownElements i) s)
      else s)"
  by pat_completeness auto
termination
  by (relation "measure (\<lambda>(D, els, i, s). length els - i)") auto

declare resetLoop.simps [simp del]

definition resetNextDropdowns ::
  "'p driver \<Rightarrow> element list \<Rightarrow> dropdownOption list list \<Rightarrow> nat \<Rightarrow> 'p tester \<Rightarrow> 'p tester"
  where
  "resetNextDropdowns D dropdownElements optionsArray startIdx s =
     resetLoop D dropdownElements startIdx s"

section \<open>Tile and sort-by validation\<close>

definition canonicalNoResults :: string where
  "canonicalNoResults = ''There are no items that match your choices.''"

definition detectTilesOnNationwidePage :: "'p driver \<Rightarrow> 'p tester \<Rightarrow> tileInfo \<times> 'p tester" where
  "detectTilesOnNationwidePage D s =
     (case driverCall (wdDetectTiles D) s of
        (Inr tileInfo, s1) \<Rightarrow> (tileInfo, s1)
      | (Inl e, s1) \<Rightarrow>
          (\<lparr>ti_total = 0, ti_visible = 0, ti_hasNoResultsMessage = False,
            ti_noResultsElement = None, ti_noResultsType = None, ti_tileDetails = []\<rparr>, s1))"

definition validateNoResultsMessage ::
  "'p driver \<Rightarrow> 'p tester \<Rightarrow> noResultsValidation \<times> 'p tester" where
  "validateNoResultsMessage D s =
     (case driverCall (wdNoResults D) s of
        (Inr v, s1) \<Rightarrow> (v, s1)
      | (Inl e, s1) \<Rightarrow> (\<lparr>nrv_found = False, nrv_isVisible = False, nrv_message = None\<rparr>, s1))"

definition orElse :: "string \<Rightarrow> string \<Rightarrow> string" where
  \<comment> \<open>\<open>a || b\<close> on strings: the empty string is falsy\<close>
  "orElse a b = (if a = [] then b else a)"

definition tileStatusOf :: "tileInfo \<Rightarrow> tileStatus" where
  "tileStatusOf tileData =
     (if ti_visible tileData > 0 then VALIDATED
      else if ti_hasNoResultsMessage tileData then NO_TILES_WITH_MESSAGE
      else NO_VISIBLE_TILES)"

definition tileResult :: "tileInfo \<Rightarrow> ('p, tileValidation) action" where
  \<comment> \<open>the end of the operation of \<open>validateTileCount\<close>, from 'Tile detection for combo' on\<close>
  "tileResult tileData s =
     (Inr (tileInfo.extend tileData \<lparr>tv_status = tileStatusOf tileData\<rparr>),
      captureValidation (Msg ''Tile detection for combo'') False s)"

definition tileOp :: "'p driver \<Rightarrow> ('p, tileValidation) action" where
  "tileOp D s =
     (case driverCall (wdScrollTop D) (s\<lparr>currentOperation := Some ''tileValidation''\<rparr>) of
        (Inl e, s1) \<Rightarrow> (Inl e, s1)
      | (Inr u, s1) \<Rightarrow>
          (case detectTilesOnNationwidePage D s1 of
             (tileData, s2) \<Rightarrow>
               if ti_hasNoResultsMessage tileData \<and> ti_total tileData > 0
                  \<and> ti_visible tileData = 0
               then
                 (case driverCall (wdRecheck D) s2 of
                    (Inl e, s3) \<Rightarrow> (Inl e, s3)
                  | (Inr recheckData, s3) \<Rightarrow>
                      tileResult
                        (if rc_hiddenTilesCount recheckData > 0
                         then tileData\<lparr>ti_total := rc_allTilesCount recheckData,
                                ti_visible := 0,
                                ti_hasNoResultsMessage := rc_hasNoResultsMessage recheckData,
                                ti_noResultsElement :=
                                  Some (orElse (rc_noResultsText recheckData)
                                    (case ti_noResultsElement tileData of
                                       None \<Rightarrow> [] | Some txt \<Rightarrow> txt))\<rparr>
                         else tileData)
                        (captureValidation (Msg ''Re-check (no results scenario)'') False s3))
               else tileResult tileData s2))"

definition validateTileCount :: "'p driver \<Rightarrow> nat \<Rightarrow> ('p, tileValidation) action" where
  "validateTileCount D comboNumber = executeWithRetry D ''tileValidation'' (tileOp D) 2"

definition toLowerCase :: "string \<Rightarrow> string" where
  \<comment> \<open>on the ASCII letters\<close>
  "toLowerCase = map (\<lambda>c. if 65 \<le> (of_char c :: nat) \<and> (of_char c :: nat) \<le> 90
                           then char_of ((of_char c :: nat) + 32) else c)"

fun joinWith :: "string \<Rightarrow> string list \<Rightarrow> string" where
  "joinWith sep [] = []"
| "joinWith sep [x] = x"
| "joinWith sep (x # y # ys) = x @ sep @ joinWith sep (y # ys)"

definition isProblematicCombo :: "dropdownOption list \<Rightarrow> bool" where
  "isProblematicCombo selection =
     (let selectionTexts = toLowerCase (joinWith ''|'' (map opt_text selection))
      in includesStr selectionTexts ''quick tips''
         \<or> includesStr selectionTexts ''videos''
         \<or> (includesStr selectionTexts ''clients'' \<and> includesStr selectionTexts ''quick tips'')
         \<or> (includesStr selectionTexts ''financial professionals''
              \<and> includesStr selectionTexts ''quick tips'')
         \<or> (includesStr selectionTexts ''financial professionals''
              \<and> includesStr selectionTexts ''videos''))"

definition visibleOf :: "tileValidation option \<Rightarrow> nat" where
  \<comment> \<open>\<open>tileData?.visible || 0\<close>\<close>
  "visibleOf tileData = (case tileData of None \<Rightarrow> 0 | Some td \<Rightarrow> ti_visible td)"

definition sortComparison :: "'p driver \<Rightarrow> tileValidation option \<Rightarrow> ('p, sortValidation) action"
  where
  \<comment> \<open>from 'Wait for tiles to be stable' on: the sort-controls script, then the script that
      compares the tile titles with their sorted orders\<close>
  "sortComparison D tileData s =
     (case driverCall (wdSortControls D) s of
        (Inl e, s1) \<Rightarrow> (Inl e, s1)
      | (Inr exists, s1) \<Rightarrow>
          if \<not> exists
          then (Inr \<lparr>sv_status = Sort_NOT_APPLICABLE, sv_reason = NoSortControls,
                      sv_tilesToSort = visibleOf tileData, sv_sortValidationApplicable = False,
                      sv_sortControlsFound = 0, sv_currentSortStatus = None\<rparr>, s1)
          else
            (case driverCall (wdSortScript D) s1 of
               (Inl e, s2) \<Rightarrow> (Inl e, s2)
             | (Inr sortValidationResult, s2) \<Rightarrow>
                 (Inr sortValidationResult,
                  captureValidation (Msg ''Sort-by validation for combo'') False s2)))"

definition sortAfterNoResultsCheck ::
  "'p driver \<Rightarrow> dropdownOption list \<Rightarrow> tileValidation option \<Rightarrow> ('p, sortValidation) action"
  where
  \<comment> \<open>from 'Check if this is a known problematic combo' on\<close>
  "sortAfterNoResultsCheck D selection tileData s =
     (if isProblematicCombo selection \<and> (tileData = None \<or> visibleOf tileData = 0) then
        (case validateNoResultsMessage D s of
           (noResultsValidation, s1) \<Rightarrow>
             (Inr \<lparr>sv_status = Sort_VALIDATED_NO_TILES, sv_reason = ExpectedNoTiles,
                   sv_tilesToSort = 0, sv_sortValidationApplicable = False,
                   sv_sortControlsFound = 0, sv_currentSortStatus = None\<rparr>, s1))
      else if tileData = None \<or> visibleOf tileData < 2 then
        (Inr \<lparr>sv_status = Sort_NOT_APPLICABLE, sv_reason = InsufficientTiles,
              sv_tilesToSort = visibleOf tileData, sv_sortValidationApplicable = False,
              sv_sortControlsFound = 0, sv_currentSortStatus = None\<rparr>, s)
      else sortComparison D tileData s)"

definition sortOp ::
  "'p driver \<Rightarrow> dropdownOption list \<Rightarrow> tileValidation option \<Rightarrow> ('p, sortValidation) action"
  where
  "sortOp D selection tileData s0 =
     (let s = s0\<lparr>currentOperation := Some ''sortByValidation''\<rparr>
      in case tileData of
           None \<Rightarrow> sortAfterNoResultsCheck D selection tileData s
         | Some td \<Rightarrow>
             if ti_hasNoResultsMessage td \<and> ti_visible td = 0 then
               (case validateNoResultsMessage D s of
                  (noResultsValidation, s1) \<Rightarrow>
                    if nrv_found noResultsValidation \<and> nrv_isVisible noResultsValidation
                    then (Inr \<lparr>sv_status = Sort_VALIDATED_WITH_NO_RESULTS,
                                sv_reason = NoTilesWithMessage, sv_tilesToSort = 0,
                                sv_sortValidationApplicable = False, sv_sortControlsFound = 0,
                                sv_currentSortStatus = None\<rparr>, s1)
                    else sortAfterNoResultsCheck D selection tileData s1)
             else sortAfterNoResultsCheck D selection tileData s)"

definition validateSortByForVisibleTiles ::
  "'p driver \<Rightarrow> nat \<Rightarrow> dropdownOption list \<Rightarrow> tileValidation option
     \<Rightarrow> ('p, sortValidation) action" where
  "validateSortByForVisibleTiles D comboNumber selection tileData =
     executeWithRetry D ''sortByValidation'' (sortOp D selection tileData) 2"

section \<open>Testing one combination\<close>

definition initialResult :: "nat \<Rightarrow> comboResult" where
  "initialResult comboNumber =
     \<lparr>cr_number = comboNumber, cr_options = [], cr_status = PASSED, cr_error = NoError,
      cr_tileTotal = 0, cr_tileVisible = 0, cr_tileStatus = NOT_VALIDATED,
      cr_hasNoResultsMessage = False, cr_noResultsText = [], cr_tileDetails = [],
      cr_sortByValidation =
        \<lparr>sv_status = Sort_NOT_APPLICABLE, sv_reason = NotEvaluatedYet, sv_tilesToSort = 0,
         sv_sortValidationApplicable = False, sv_sortControlsFound = 0,
         sv_currentSortStatus = None\<rparr>\<rparr>"

function verifyLoop ::
  "'p driver \<Rightarrow> element list \<Rightarrow> dropdownOption list \<Rightarrow> nat \<Rightarrow> recordedOption list
     \<Rightarrow> 'p tester \<Rightarrow> (error option \<times> recordedOption list) \<times> 'p tester" where
  \<comment> \<open>step 1 of the try block; the options pushed so far survive a throw\<close>
  "verifyLoop D dropdownElements selection i options s =
     (if i < length selection then
        (case elementCall (\<lambda>el. wdCheckValue D el (opt_value (selection ! i)))
                (at dropdownElements i) s of
           (Inl e, s1) \<Rightarrow> ((Some e, options), s1)
         | (Inr verified, s1) \<Rightarrow>
             if \<not> verified
             then ((Some (VerificationFailedFor (i + 1) (opt_value (selection ! i))), options), s1)
             else verifyLoop D dropdownElements selection (i + 1)
                    (options @ [Entry (i + 1) (opt_value (selection ! i))
                                  (opt_text (selection ! i))]) s1)
      else ((None, options), s))"
  by pat_completeness auto
termination
  by (relation "measure (\<lambda>(D, els, selection, i, options, s). length selection - i)") auto

declare verifyLoop.simps [simp del]

definition failCombination :: "error \<Rightarrow> comboResult \<Rightarrow> 'p tester \<Rightarrow> comboResult \<times> 'p tester"
  where
  \<comment> \<open>the catch block\<close>
  "failCombination e result s =
     (result\<lparr>cr_status := FAILED, cr_error := Thrown e, cr_tileStatus := ERROR\<rparr>,
      captureValidation (Msg ''Combo failed'') True
        (s\<lparr>totalTests := totalTests s + 1, failedTests := failedTests s + 1\<rparr>))"

definition countPassed :: "'p tester \<Rightarrow> 'p tester" where
  \<comment> \<open>\<open>this.totalTests++; this.passedTests++;\<close>\<close>
  "countPassed s = s\<lparr>totalTests := totalTests s + 1, passedTests := passedTests s + 1\<rparr>"

definition classify :: "tileValidation \<Rightarrow> comboResult \<Rightarrow> 'p tester \<Rightarrow> comboResult \<times> 'p tester"
  where
  \<comment> \<open>step 4 of the try block\<close>
  "classify tileValidation result s =
     (let hasVisibleTiles = ti_visible tileValidation > 0;
          hasNoResultsMessage = ti_hasNoResultsMessage tileValidation;
          hasCorrectNoResultsMessage =
            (hasNoResultsMessage \<and>
             (case ti_noResultsElement tileValidation of
                None \<Rightarrow> False | Some txt \<Rightarrow> includesStr txt canonicalNoResults))
      in case
           (if hasVisibleTiles then
              (result\<lparr>cr_status := PASSED, cr_tileStatus := VALIDATED, cr_error := NoError\<rparr>,
               captureValidation (Msg ''visible tiles found'') True (countPassed s))
            else if hasCorrectNoResultsMessage then
              (result\<lparr>cr_status := PASSED, cr_tileStatus := VALIDATED_WITH_NO_RESULTS,
                 cr_error := ExpectedBehavior (take 100 (cr_noResultsText result))\<rparr>,
               captureValidation (Msg ''Valid no results message found'') True (countPassed s))
            else if hasNoResultsMessage then
              (result\<lparr>cr_status := PASSED, cr_tileStatus := HAS_MESSAGE_BUT_NOT_EXPECTED,
                 cr_error := NotTheExpectedMessage (take 100 (cr_noResultsText result))\<rparr>,
               captureValidation (Msg ''Different no results message found'') True
                 (countPassed s))
            else
              (result\<lparr>cr_status := PASSED, cr_tileStatus := NO_VISIBLE_TILES,
                 cr_error := ExpectedNoVisibleTiles\<rparr>,
               captureValidation (Msg ''No visible tiles (expected behavior)'') True
                 (countPassed s)))
         of (result', s') \<Rightarrow>
              (result', captureValidation (Msg ''Combo validation result'') False s'))"

definition testSingleCombination ::
  "'p driver \<Rightarrow> dropdownOption list \<Rightarrow> element list \<Rightarrow> nat \<Rightarrow> 'p tester
     \<Rightarrow> comboResult \<times> 'p tester" where
  "testSingleCombination D selection dropdownElements comboNumber s =
     (case verifyLoop D dropdownElements selection 0 [] s of
        ((Some e, options), s1) \<Rightarrow>
          failCombination e ((initialResult comboNumber)\<lparr>cr_options := options\<rparr>) s1
      | ((None, options), s1) \<Rightarrow>
          (case validateTileCount D comboNumber s1 of
             (Inl e, s2) \<Rightarrow>
               failCombination e ((initialResult comboNumber)\<lparr>cr_options := options\<rparr>) s2
           | (Inr tileValidation, s2) \<Rightarrow>
               (let result = (initialResult comboNumber)
                      \<lparr>cr_options := options,
                       cr_tileTotal := ti_total tileValidation,
                       cr_tileVisible := ti_visible tileValidation,
                       cr_tileStatus := tv_status tileValidation,
                       cr_hasNoResultsMessage := ti_hasNoResultsMessage tileValidation,
                       cr_noResultsText :=
                         (case ti_noResultsElement tileValidation of
                            None \<Rightarrow> [] | Some txt \<Rightarrow> txt),
                       cr_tileDetails := ti_tileDetails tileValidation\<rparr>
                in case validateSortByForVisibleTiles D comboNumber selection
                          (Some tileValidation) s2 of
                     (Inl e, s3) \<Rightarrow> failCombination e result s3
                   | (Inr sortValidation, s3) \<Rightarrow>
                       classify tileValidation
                         (result\<lparr>cr_sortByValidation :=
                             sortValidation\<lparr>sv_tilesToSort := ti_visible tileValidation\<rparr>\<rparr>)
                         s3)))"

subsection \<open>The earlier CompactDropdownTester (dropdown-validator5.js)\<close>

text \<open>
  Its result record has no sort-by part and fewer tile fields; the fields it lacks keep
  their values of \<open>initialResult\<close>, except the status, which starts as FAILED.
\<close>

definition validateTileCount_v5 :: "'p driver \<Rightarrow> nat \<Rightarrow> ('p, tileValidation) action" where
  "validateTileCount_v5 D comboNumber =
     executeWithRetry D ''tileValidation''
       (\<lambda>s. case driverCall (wdCountTiles D) (s\<lparr>currentOperation := Some ''tileValidation''\<rparr>) of
               (Inl e, s1) \<Rightarrow> (Inl e, s1)
             | (Inr tileCount, s1) \<Rightarrow>
                 (Inr (tileInfo.extend tileCount \<lparr>tv_status = VALIDATED\<rparr>),
                  captureValidation (Msg ''Tile count validated for combo'') False s1))
       2"

definition failCombination_v5 ::
  "error \<Rightarrow> comboResult \<Rightarrow> 'p tester \<Rightarrow> comboResult \<times> 'p tester" where
  "failCombination_v5 e result s =
     (result\<lparr>cr_status := FAILED, cr_error := Thrown e\<rparr>,
      captureValidation (Msg ''Combo failed'') True
        (s\<lparr>totalTests := totalTests s + 1, failedTests := failedTests s + 1\<rparr>))"

definition testSingleCombination_v5 ::
  "'p driver \<Rightarrow> dropdownOption list \<Rightarrow> element list \<Rightarrow> nat \<Rightarrow> 'p tester
     \<Rightarrow> comboResult \<times> 'p tester" where
  "testSingleCombination_v5 D selection dropdownElements comboNumber s =
     (case verifyLoop D dropdownElements selection 0 [] s of
        ((Some e, options), s1) \<Rightarrow>
          failCombination_v5 e
            ((initialResult comboNumber)\<lparr>cr_options := options, cr_status := FAILED\<rparr>) s1
      | ((None, options), s1) \<Rightarrow>
          (case validateTileCount_v5 D comboNumber s1 of
             (Inl e, s2) \<Rightarrow>
               failCombination_v5 e
                 ((initialResult comboNumber)\<lparr>cr_options := options, cr_status := FAILED\<rparr>) s2
           | (Inr tileValidation, s2) \<Rightarrow>
               ((initialResult comboNumber)
                  \<lparr>cr_options := options,
                   cr_tileTotal := ti_total tileValidation,
                   cr_tileVisible := ti_visible tileValidation,
                   cr_tileStatus := tv_status tileValidation,
                   cr_tileDetails := ti_tileDetails tileValidation,
                   cr_status := PASSED\<rparr>,
                captureValidation (Msg ''Combo passed with tile validation'') False
                  (countPassed s2))))"

section \<open>Enumerating the combinations\<close>

definition syntheticFailure :: "nat \<Rightarrow> dropdownOption list \<Rightarrow> dropdownOption \<Rightarrow> nat \<Rightarrow> comboResult"
  where
  \<comment> \<open>the record pushed by the else branch of \<open>testCombosRecursive\<close>; the fields it does
      not have are those of \<open>initialResult\<close>\<close>
  "syntheticFailure number newSelection opt idx =
     (initialResult number)
       \<lparr>cr_options := map Raw newSelection, cr_status := FAILED,
        cr_error := FailedToSelect (opt_text opt) (idx + 1)\<rparr>"

function testCombosRecursive ::
    "'p driver \<Rightarrow> element list \<Rightarrow> dropdownOption list list \<Rightarrow> nat \<Rightarrow> dropdownOption list
       \<Rightarrow> comboResult list \<Rightarrow> ('p, comboResult list) action"
  and combosLoop ::
    "'p driver \<Rightarrow> element list \<Rightarrow> dropdownOption list list \<Rightarrow> nat \<Rightarrow> dropdownOption list
       \<Rightarrow> nat \<Rightarrow> comboResult list \<Rightarrow> ('p, comboResult list) action"
  where
  "testCombosRecursive D dropdownElements optionsArray idx currentSelection results s =
     (if idx \<ge> length optionsArray then
        (case testSingleCombination D currentSelection dropdownElements (length results + 1) s of
           (result, s1) \<Rightarrow> (Inr (results @ [result]), s1))
      else combosLoop D dropdownElements optionsArray idx currentSelection 0 results s)"
| "combosLoop D dropdownElements optionsArray idx currentSelection i results s =
     (if idx < length optionsArray \<and> i < length (optionsArray ! idx) then
        (case selectDropdownOption D (at dropdownElements idx) (optionsArray ! idx ! i) idx s of
           (Inl e, s1) \<Rightarrow> (Inl e, s1)
         | (Inr selected, s1) \<Rightarrow>
             if selected then
               (case testCombosRecursive D dropdownElements optionsArray (idx + 1)
                       (currentSelection @ [optionsArray ! idx ! i]) results s1 of
                  (Inl e, s2) \<Rightarrow> (Inl e, s2)
                | (Inr results2, s2) \<Rightarrow>
                    combosLoop D dropdownElements optionsArray idx currentSelection (i + 1)
                      results2
                      (if i + 1 < length (optionsArray ! idx) \<and> idx + 1 < length optionsArray
                       then resetNextDropdowns D dropdownElements optionsArray (idx + 1) s2
                       else s2))
             else
               combosLoop D dropdownElements optionsArray idx currentSelection (i + 1)
                 (results @ [syntheticFailure (length results + 1)
                               (currentSelection @ [optionsArray ! idx ! i])
                               (optionsArray ! idx ! i) idx])
                 s1)
      else (Inr results, s))"
  by pat_completeness auto
termination
  by (relation "inv_image (less_than <*lex*> less_than <*lex*> less_than)
        (\<lambda>x. case x of
           Inl (D, els, optionsArray, idx, sel, results, s) \<Rightarrow>
             (length optionsArray - idx, 1::nat, 0::nat)
         | Inr (D, els, optionsArray, idx, sel, i, results, s) \<Rightarrow>
             (length optionsArray - idx, 0, length (optionsArray ! idx) - i))")
     auto

declare testCombosRecursive.simps [simp del] combosLoop.simps [simp del]

function collectOptions ::
  "'p driver \<Rightarrow> element list \<Rightarrow> nat \<Rightarrow> dropdownOption list list
     \<Rightarrow> ('p, dropdownOption list list) action" where
  \<comment> \<open>the loop of \<open>testAllCombinations\<close> that fills \<open>dropdownOptions\<close>\<close>
  "collectOptions D dropdownElements i dropdownOptions s =
     (if i < length dropdownElements then
        (case getDropdownOptions D (at dropdownElements i) i s of
           (Inl e, s1) \<Rightarrow> (Inl e, s1)
         | (Inr opts, s1) \<Rightarrow>
             if length opts = 0 then (Inl (DropdownHasNoOptions (i + 1)), s1)
             else collectOptions D dropdownElements (i + 1) (dropdownOptions @ [opts]) s1)
      else (Inr dropdownOptions, s))"
  by pat_completeness auto
termination
  by (relation "measure (\<lambda>(D, els, i, acc, s). length els - i)") auto

declare collectOptions.simps [simp del]

definition testAllCombinations :: "'p driver \<Rightarrow> element list \<Rightarrow> ('p, comboResult list) action"
  where
  "testAllCombinations D dropdownElements =
     executeWithRetry D ''testAllCombinations''
       (\<lambda>s. if length dropdownElements = 0 then (Inl NoDropdowns, s)
            else
              (case collectOptions D dropdownElements 0 [] s of
                 (Inl e, s1) \<Rightarrow> (Inl e, s1)
               | (Inr dropdownOptions, s1) \<Rightarrow>
                   (case testCombosRecursive D dropdownElements dropdownOptions 0 [] []
                           (captureValidation (Msg ''Testing combinations'') True s1) of
                      (Inl e, s2) \<Rightarrow> (Inl e, s2)
                    | (Inr results, s2) \<Rightarrow>
                        (Inr results,
                         captureValidation (Msg ''Combinations tested'') True s2))))
       3"

section \<open>Auxiliary notions and concrete sessions\<close>

definition counts :: "'p tester \<Rightarrow> nat \<times> nat \<times> nat" where
  \<comment> \<open>the run-wide counters\<close>
  "counts s = (totalTests s, passedTests s, failedTests s)"

definition newTester :: "'p \<Rightarrow> 'p tester" where
  \<comment> \<open>the fields as the constructor of CompactDropdownTester sets them\<close>
  "newTester p = \<lparr>page = p,
     retryCounts = [''navigation'' \<mapsto> 0, ''dropdownFinding'' \<mapsto> 0, ''dropdownOptions'' \<mapsto> 0,
       ''selection'' \<mapsto> 0, ''verification'' \<mapsto> 0, ''stuckRecovery'' \<mapsto> 0,
       ''tileValidation'' \<mapsto> 0, ''sortByValidation'' \<mapsto> 0],
     totalTests = 0, passedTests = 0, failedTests = 0, currentOperation = None,
     isRecovering = False, validationBuffer = [], validationLog = []\<rparr>"

definition newTester_v3 :: "'p \<Rightarrow> 'p tester" where
  \<comment> \<open>the fields as the constructor of CompleteDropdownTester sets them\<close>
  "newTester_v3 p = \<lparr>page = p,
     retryCounts = [''navigation'' \<mapsto> 0, ''dropdownFinding'' \<mapsto> 0, ''dropdownOptions'' \<mapsto> 0,
       ''selection'' \<mapsto> 0, ''verification'' \<mapsto> 0],
     totalTests = 0, passedTests = 0, failedTests = 0, currentOperation = None,
     isRecovering = False, validationBuffer = [], validationLog = []\<rparr>"

text \<open>A session that is gone: every call rejects.\<close>

definition reject :: "('p, 'a) call" where
  "reject p = (Inl (DriverError ''no such session''), p)"

definition deadSession :: "'p driver" where
  "deadSession = \<lparr>wdDeleteAllCookies = reject, wdRefresh = reject, wdQuit = reject,
     wdClearLocalStorage = reject, wdClearSessionStorage = reject, wdScrollTop = reject,
     wdOptions = (\<lambda>el. reject), wdSetValue = (\<lambda>el v. reject), wdCheckValue = (\<lambda>el v. reject),
     wdDetectTiles = reject, wdCountTiles = reject, wdRecheck = reject, wdNoResults = reject, wdSortControls = reject,
     wdSortScript = reject\<rparr>"

text \<open>
  Operations for trying the retry executor.  The page is the number of times the
  operation has been invoked.
\<close>

definition alwaysFails :: "(nat, string) action" where
  "alwaysFails s = (Inl (DriverError ''timeout''), s\<lparr>page := page s + 1\<rparr>)"

definition failsTimes :: "nat \<Rightarrow> (nat, string) action" where
  \<comment> \<open>fails on its first \<open>k\<close> invocations, then returns 'done'\<close>
  "failsTimes k s =
     (if page s < k then (Inl (DriverError ''timeout''), s\<lparr>page := page s + 1\<rparr>)
      else (Inr ''done'', s\<lparr>page := page s + 1\<rparr>))"

text \<open>
  A small page: a list of selects, each with its options and its current value, and the
  tile observation it shows.  Every call to the session advances a clock; the calls
  whose number is in \<open>tp_faults\<close> time out.  With \<open>tp_cascade\<close> a change of one
  select puts the others back to the empty value.  The page silently drops the
  assignments listed in \<open>tp_stubborn\<close>.
\<close>

record toyPage =
  tp_clock :: nat
  tp_faults :: "nat list"
  tp_selects :: "(domOption list \<times> string) list"
  tp_cascade :: bool
  tp_stubborn :: "(nat \<times> string) list"
  tp_tiles :: tileInfo

definition tick :: "(toyPage, 'a) call \<Rightarrow> (toyPage, 'a) call" where
  "tick f p =
     (if tp_clock p \<in> set (tp_faults p)
      then (Inl (DriverError ''timeout''), p\<lparr>tp_clock := tp_clock p + 1\<rparr>)
      else f (p\<lparr>tp_clock := tp_clock p + 1\<rparr>))"

definition assign :: "nat \<Rightarrow> string \<Rightarrow> toyPage \<Rightarrow> toyPage" where
  "assign el v p =
     (if (el, v) \<in> set (tp_stubborn p) then p
      else p\<lparr>tp_selects :=
             map (\<lambda>(j, (opts, cur)). if j = el then (opts, v)
                                      else if tp_cascade p then (opts, []) else (opts, cur))
               (enumerate 0 (tp_selects p))\<rparr>)"

definition noTiles :: tileInfo where
  "noTiles = \<lparr>ti_total = 0, ti_visible = 0, ti_hasNoResultsMessage = False,
     ti_noResultsElement = None, ti_noResultsType = None, ti_tileDetails = []\<rparr>"

definition toySession :: "toyPage driver" where
  "toySession = \<lparr>
     wdDeleteAllCookies = tick (\<lambda>p. (Inr (), p)),
     wdRefresh = tick (\<lambda>p. (Inr (), p)),
     wdQuit = tick (\<lambda>p. (Inr (), p)),
     wdClearLocalStorage = tick (\<lambda>p. (Inr (), p)),
     wdClearSessionStorage = tick (\<lambda>p. (Inr (), p)),
     wdScrollTop = tick (\<lambda>p. (Inr (), p)),
     wdOptions = (\<lambda>el. tick (\<lambda>p. (Inr (if el < length (tp_selects p)
                                         then Some (fst (tp_selects p ! el)) else None), p))),
     wdSetValue = (\<lambda>el v. tick (\<lambda>p. if el < length (tp_selects p)
                                     then (Inr True, assign el v p) else (Inr False, p))),
     wdCheckValue = (\<lambda>el v. tick (\<lambda>p. (Inr (el < length (tp_selects p)
                                       \<and> snd (tp_selects p ! el) = v), p))),
     wdDetectTiles = tick (\<lambda>p. (Inr (tp_tiles p), p)),
     wdCountTiles = tick (\<lambda>p. (Inr (tp_tiles p), p)),
     wdRecheck = tick (\<lambda>p. (Inr \<lparr>rc_allTilesCount = 0, rc_hiddenTilesCount = 0,
                                  rc_hasNoResultsMessage = False, rc_noResultsText = []\<rparr>, p)),
     wdNoResults = tick (\<lambda>p. (Inr \<lparr>nrv_found = False, nrv_isVisible = False,
                                    nrv_message = None\<rparr>, p)),
     wdSortControls = tick (\<lambda>p. (Inr False, p)),
     wdSortScript = tick (\<lambda>p. (Inr \<lparr>sv_status = Sort_NOT_APPLICABLE, sv_reason = FromScript,
                                     sv_tilesToSort = 0, sv_sortValidationApplicable = False,
                                     sv_sortControlsFound = 0, sv_currentSortStatus = None\<rparr>, p))\<rparr>"

definition dom1 :: "string \<Rightarrow> string \<Rightarrow> domOption" where
  "dom1 v t = \<lparr>dom_value = v, dom_text = t, dom_disabled = False\<rparr>"

definition opt1 :: "string \<Rightarrow> string \<Rightarrow> nat \<Rightarrow> dropdownOption" where
  "opt1 v t i = \<lparr>opt_value = v, opt_text = t, opt_index = i\<rparr>"

definition toyPageOf :: "(domOption list \<times> string) list \<Rightarrow> toyPage" where
  "toyPageOf sels = \<lparr>tp_clock = 0, tp_faults = [], tp_selects = sels, tp_cascade = False,
     tp_stubborn = [], tp_tiles = noTiles\<rparr>"

definition stubbornPage :: toyPage where
  \<comment> \<open>one select with the options a, b, c, showing a; the page drops the assignment of b\<close>
  "stubbornPage =
     (toyPageOf [([dom1 ''a'' ''A'', dom1 ''b'' ''B'', dom1 ''c'' ''C''], ''a'')])
       \<lparr>tp_stubborn := [(0, ''b'')]\<rparr>"


definition oneTile :: tileValidation where
  "oneTile = \<lparr>ti_total = 1, ti_visible = 1, ti_hasNoResultsMessage = False,
     ti_noResultsElement = None, ti_noResultsType = None, ti_tileDetails = [''Annuities''],
     tv_status = VALIDATED\<rparr>"


definition oneTilePage :: toyPage where
  \<comment> \<open>one select showing a; a single visible tile\<close>
  "oneTilePage =
     (toyPageOf [([dom1 ''a'' ''A''], ''a'')])
       \<lparr>tp_tiles := \<lparr>ti_total = 1, ti_visible = 1, ti_hasNoResultsMessage = False,
            ti_noResultsElement = None, ti_noResultsType = None,
            ti_tileDetails = [''Annuities'']\<rparr>\<rparr>"








definition isSelected :: "event \<Rightarrow> bool" where
  "isSelected e = (case e of SelectedOption d v \<Rightarrow> True | _ \<Rightarrow> False)"

definition selectionsMade :: "'p tester \<Rightarrow> event list" where
  \<comment> \<open>the selections that succeeded so far, as \<open>selectDropdownOption\<close> notes them\<close>
  "selectionsMade s = filter isSelected (captured s)"













section \<open>Properties of the retry executor\<close>

lemma retryLoop_done:
  "\<not> attempt \<le> m \<Longrightarrow> retryLoop D n f m attempt s = (Inl (OpFailedAfter n m), s)"
  by (subst retryLoop.simps) simp

lemma retryLoop_success:
  "attempt \<le> m \<Longrightarrow> f s = (Inr v, s1) \<Longrightarrow>
   retryLoop D n f m attempt s = (Inr v, recordSuccess n attempt s1)"
  by (subst retryLoop.simps) simp

lemma retryLoop_last_failure:
  "attempt \<le> m \<Longrightarrow> \<not> attempt < m \<Longrightarrow> f s = (Inl e, s1) \<Longrightarrow>
   retryLoop D n f m attempt s = retryLoop D n f m (attempt + 1) (recordFailure n s1)"
  by (subst retryLoop.simps) simp

lemma retryLoop_recovery_throws:
  "attempt < m \<Longrightarrow> f s = (Inl e, s1) \<Longrightarrow>
   performRecovery D n (recordFailure n s1) = (Inl e', s2) \<Longrightarrow>
   retryLoop D n f m attempt s = (Inl e', s2)"
  by (subst retryLoop.simps) simp

lemma retryLoop_retry:
  "attempt < m \<Longrightarrow> f s = (Inl e, s1) \<Longrightarrow>
   performRecovery D n (recordFailure n s1) = (Inr u, s2) \<Longrightarrow>
   retryLoop D n f m attempt s = retryLoop D n f m (attempt + 1) s2"
  by (subst retryLoop.simps) simp

text \<open>
  A relation between states that every step of the loop respects holds between the
  state before the loop and the state after it.
\<close>

lemma retryLoop_rel:
  assumes refl: "\<And>s. R s s"
    and trans: "\<And>a b c. R a b \<Longrightarrow> R b c \<Longrightarrow> R a c"
    and op: "\<And>s r s1. f s = (r, s1) \<Longrightarrow> R s s1"
    and succ: "\<And>s k. R s (recordSuccess n k s)"
    and fail: "\<And>s. R s (recordFailure n s)"
    and rec: "\<And>s r s1. performRecovery D n s = (r, s1) \<Longrightarrow> R s s1"
  shows "R s (snd (retryLoop D n f m attempt s))"
  using refl trans op succ fail rec
proof (induction D n f m attempt s rule: retryLoop.induct)
  case (1 D opName opFn maxRetries attempt s)
  note R = "1.prems"
  show ?case
  proof (cases "attempt \<le> maxRetries")
    case False
    then show ?thesis using R(1) by (simp add: retryLoop_done)
  next
    case le: True
    obtain r s1 where o: "opFn s = (r, s1)" by (cases "opFn s")
    have r1: "R s s1" using R(3)[OF o] .
    show ?thesis
    proof (cases r)
      case (Inr v)
      have "R s (recordSuccess opName attempt s1)" using r1 R(4) R(2) by blast
      then show ?thesis
        using le o Inr by (simp add: retryLoop_success)
    next
      case (Inl e)
      have r2: "R s (recordFailure opName s1)" using r1 R(5) R(2) by blast
      show ?thesis
      proof (cases "attempt < maxRetries")
        case False
        have "R (recordFailure opName s1)
                (snd (retryLoop D opName opFn maxRetries (attempt + 1) (recordFailure opName s1)))"
          using "1.IH"(2)[OF le o[symmetric] Inl False] R by blast
        then have "R s (snd (retryLoop D opName opFn maxRetries (attempt + 1)
                               (recordFailure opName s1)))"
          using r2 R(2) by blast
        then show ?thesis
          using le False o Inl by (simp add: retryLoop_last_failure)
      next
        case lt: True
        obtain r3 s3 where p: "performRecovery D opName (recordFailure opName s1) = (r3, s3)"
          by (cases "performRecovery D opName (recordFailure opName s1)")
        have r3: "R s s3" using R(6)[OF p] r2 R(2) by blast
        show ?thesis
        proof (cases r3)
          case (Inl e')
          then show ?thesis using lt o \<open>r = Inl e\<close> p r3 by (simp add: retryLoop_recovery_throws)
        next
          case (Inr u)
          have "R s3 (snd (retryLoop D opName opFn maxRetries (attempt + 1) s3))"
            using "1.IH"(1)[OF le o[symmetric] \<open>r = Inl e\<close> lt p[symmetric] Inr] R by blast
          then have "R s (snd (retryLoop D opName opFn maxRetries (attempt + 1) s3))"
            using r3 R(2) by blast
          then show ?thesis
            using lt o \<open>r = Inl e\<close> p Inr by (simp add: retryLoop_retry)
        qed
      qed
    qed
  qed
qed

section \<open>The retry executor at concrete inputs\<close>

text \<open>
  C5 (retry exhaustion).  The claim: with an operation that fails on every invocation
  and \<open>maxAttempts = m\<close>, \<open>executeWithRetry\<close> invokes the operation exactly \<open>m\<close>
  times and then fails with an error that names the operation.  In
  CompactDropdownTester the recovery action runs inside the catch block without a guard
  of its own.  For the operation name 'navigation' it deletes the cookies; when the
  session rejects that call, the rejection leaves \<open>executeWithRetry\<close> after a single
  invocation of the operation, and the error is the session's, not the exhaustion error
  \<open>OpFailedAfter ''navigation'' 3\<close>.  (CompleteDropdownTester wraps the same recovery
  in a try block that ignores the error.)
\<close>

theorem retry_exhaustion_cut_short_by_recovery:
  "fst (executeWithRetry deadSession ''navigation'' alwaysFails 3 (newTester 0))
     = Inl (DriverError ''no such session'')
   \<and> page (snd (executeWithRetry deadSession ''navigation'' alwaysFails 3 (newTester 0))) = 1"
  by code_simp

text \<open>
  C6 (retry idempotence).  The claim: an operation that fails \<open>k < maxAttempts\<close> times
  and then succeeds makes \<open>executeWithRetry\<close> return its value, with the retry counter
  of the operation name at 0 afterwards.  Same defect as for C5: the operation below
  would succeed on its second invocation, but the recovery after the first failure
  rejects, so the second attempt is never made; the call fails and leaves the counter
  at 1.
\<close>

theorem retry_success_lost_to_recovery:
  "fst (executeWithRetry deadSession ''navigation'' (failsTimes 1) 3 (newTester 0))
     = Inl (DriverError ''no such session'')
   \<and> retryCount (snd (executeWithRetry deadSession ''navigation'' (failsTimes 1) 3
                        (newTester 0))) ''navigation'' = 1"
  by code_simp

text \<open>
  C7 (the retry counter counts the failed attempts).  The claim: every failed attempt
  adds exactly one to the counter of the operation name, so \<open>j\<close> failures from 0 leave
  \<open>j\<close>.  In CompleteDropdownTester the increment sits under
  \<open>if (this.retryCounts[operationName])\<close>, which is false for a counter at 0: after
  three failed attempts (the operation was invoked three times) the counter is still 0.
\<close>

theorem v3_counter_stays_zero:
  "fst (executeWithRetry_v3 D ''selection'' alwaysFails 3 (newTester_v3 0))
     = Inl (OperationFailedAfter ''selection'' 3 (Some (DriverError ''timeout'')))
   \<and> page (snd (executeWithRetry_v3 D ''selection'' alwaysFails 3
                  (newTester_v3 0))) = 3
   \<and> retryCount (snd (executeWithRetry_v3 D ''selection'' alwaysFails 3
                        (newTester_v3 0))) ''selection'' = 0"
  by (simp add: executeWithRetry_v3_def newTester_v3_def alwaysFails_def
        performRecovery_v3_def truthy_def retryCount_def retryLoop_v3.simps)

section \<open>A selection that fails during the enumeration\<close>

text \<open>
  C3 (a failed selection is recorded and the siblings go on).  The claim: when selecting
  an option fails, one synthetic FAILED result is appended in place of its subtree, and
  the remaining options of the dropdown are still tested.  \<open>selectDropdownOption\<close> is
  \<open>executeWithRetry\<close> around an operation that returns true or throws, so it never
  returns false: the else branch of \<open>testCombosRecursive\<close> that builds the synthetic
  result cannot be reached, and the exhaustion error of the selection leaves the
  enumeration.  On a select with the options a, b, c whose option b cannot be set, the
  enumeration returns no list at all: option c is never tried, and no FAILED result
  stands for b.
\<close>

theorem selection_failure_aborts_enumeration:
  "fst (testCombosRecursive toySession [0]
          [[opt1 ''a'' ''A'' 0, opt1 ''b'' ''B'' 1, opt1 ''c'' ''C'' 2]] 0 [] []
          (newTester stubbornPage))
     = Inl (OpFailedAfter ''selection'' 2)"
  by code_simp

section \<open>The run-wide counters\<close>

lemma counts_flush [simp]: "counts (flushValidationBuffer s) = counts s"
  by (simp add: counts_def flushValidationBuffer_def)

lemma counts_capture [simp]: "counts (captureValidation e b s) = counts s"
  by (simp add: captureValidation_def Let_def) (simp add: counts_def)

lemma counts_update [simp]:
  "counts (s\<lparr>page := p\<rparr>) = counts s"
  "counts (s\<lparr>retryCounts := rc\<rparr>) = counts s"
  "counts (s\<lparr>currentOperation := co\<rparr>) = counts s"
  "counts (s\<lparr>isRecovering := ir\<rparr>) = counts s"
  by (simp_all add: counts_def)

lemma counts_recordSuccess [simp]: "counts (recordSuccess n k s) = counts s"
  by (simp add: recordSuccess_def Let_def)

lemma counts_recordFailure [simp]: "counts (recordFailure n s) = counts s"
  by (simp add: recordFailure_def)

lemma counts_driverCall [simp]: "counts (snd (driverCall f s)) = counts s"
  by (simp add: driverCall_def split: prod.splits)

lemma counts_elementCall [simp]: "counts (snd (elementCall f el s)) = counts s"
  by (simp add: elementCall_def split: option.splits)

lemma counts_performRecovery [simp]: "counts (snd (performRecovery D n s)) = counts s"
  by (simp add: performRecovery_def)

lemma counts_executeWithRetry:
  assumes "\<And>s. counts (snd (f s)) = counts s"
  shows "counts (snd (executeWithRetry D n f m s)) = counts s"
proof -
  have "counts (snd (retryLoop D n f m 1 (s\<lparr>currentOperation := Some n\<rparr>)))
          = counts (s\<lparr>currentOperation := Some n\<rparr>)"
  proof (rule retryLoop_rel[where R = "\<lambda>a b. counts b = counts a"])
    fix s r s1 assume "f s = (r, s1)"
    then show "counts s1 = counts s" using assms[of s] by simp
  next
    fix s r s1 assume "performRecovery D n s = (r, s1)"
    then show "counts s1 = counts s" using counts_performRecovery[of D n s] by simp
  qed simp_all
  then show ?thesis by (simp add: executeWithRetry_def)
qed

lemma counts_detectTiles [simp]: "counts (snd (detectTilesOnNationwidePage D s)) = counts s"
  by (cases "driverCall (wdDetectTiles D) s")
     (use counts_driverCall[of "wdDetectTiles D" s] in
       \<open>auto simp: detectTilesOnNationwidePage_def split: sum.splits\<close>)

lemma counts_validateNoResultsMessage [simp]:
  "counts (snd (validateNoResultsMessage D s)) = counts s"
  by (cases "driverCall (wdNoResults D) s")
     (use counts_driverCall[of "wdNoResults D" s] in
       \<open>auto simp: validateNoResultsMessage_def split: sum.splits\<close>)

lemma counts_tileResult [simp]: "counts (snd (tileResult td s)) = counts s"
  by (simp add: tileResult_def)

lemma counts_tileOp: "counts (snd (tileOp D s)) = counts s"
proof -
  let ?s0 = "s\<lparr>currentOperation := Some ''tileValidation''\<rparr>"
  obtain r1 s1 where a: "driverCall (wdScrollTop D) ?s0 = (r1, s1)"
    by (cases "driverCall (wdScrollTop D) ?s0")
  have c1: "counts s1 = counts s" using counts_driverCall[of "wdScrollTop D" ?s0] a by simp
  obtain td s2 where b: "detectTilesOnNationwidePage D s1 = (td, s2)"
    by (cases "detectTilesOnNationwidePage D s1")
  have c2: "counts s2 = counts s" using counts_detectTiles[of D s1] b c1 by simp
  obtain r3 s3 where c: "driverCall (wdRecheck D) s2 = (r3, s3)"
    by (cases "driverCall (wdRecheck D) s2")
  have c3: "counts s3 = counts s" using counts_driverCall[of "wdRecheck D" s2] c c2 by simp
  show ?thesis
    using a b c c1 c2 c3 by (simp add: tileOp_def split: sum.splits)
qed

lemma counts_validateTileCount [simp]: "counts (snd (validateTileCount D n s)) = counts s"
  unfolding validateTileCount_def by (rule counts_executeWithRetry) (rule counts_tileOp)

lemma counts_sortComparison [simp]: "counts (snd (sortComparison D td s)) = counts s"
proof -
  obtain r1 s1 where a: "driverCall (wdSortControls D) s = (r1, s1)"
    by (cases "driverCall (wdSortControls D) s")
  have c1: "counts s1 = counts s" using counts_driverCall[of "wdSortControls D" s] a by simp
  obtain r2 s2 where b: "driverCall (wdSortScript D) s1 = (r2, s2)"
    by (cases "driverCall (wdSortScript D) s1")
  have c2: "counts s2 = counts s" using counts_driverCall[of "wdSortScript D" s1] b c1 by simp
  show ?thesis using a b c1 c2 by (simp add: sortComparison_def split: sum.splits)
qed

lemma counts_sortAfterNoResultsCheck [simp]:
  "counts (snd (sortAfterNoResultsCheck D sel td s)) = counts s"
  by (cases "validateNoResultsMessage D s")
     (use counts_validateNoResultsMessage[of D s] in
       \<open>auto simp: sortAfterNoResultsCheck_def\<close>)

lemma counts_sortOp: "counts (snd (sortOp D sel td s)) = counts s"
proof -
  let ?s0 = "s\<lparr>currentOperation := Some ''sortByValidation''\<rparr>"
  obtain v s1 where a: "validateNoResultsMessage D ?s0 = (v, s1)"
    by (cases "validateNoResultsMessage D ?s0")
  have c1: "counts s1 = counts s" using counts_validateNoResultsMessage[of D ?s0] a by simp
  show ?thesis using a c1 by (simp add: sortOp_def Let_def split: option.splits)
qed

lemma counts_validateSortBy [simp]:
  "counts (snd (validateSortByForVisibleTiles D n sel td s)) = counts s"
  unfolding validateSortByForVisibleTiles_def
  by (rule counts_executeWithRetry) (rule counts_sortOp)

lemma counts_verifyLoop [simp]: "counts (snd (verifyLoop D els sel i opts s)) = counts s"
proof (induction D els sel i opts s rule: verifyLoop.induct)
  case (1 D els sel i opts s)
  let ?c = "elementCall (\<lambda>el. wdCheckValue D el (opt_value (sel ! i))) (at els i) s"
  obtain r s1 where a: "?c = (r, s1)" by (cases ?c)
  have c1: "counts s1 = counts s"
    using counts_elementCall[of "\<lambda>el. wdCheckValue D el (opt_value (sel ! i))" "at els i" s] a
    by simp
  show ?case
  proof (cases "i < length sel")
    case False
    then show ?thesis by (subst verifyLoop.simps) simp
  next
    case True
    show ?thesis
    proof (cases r)
      case (Inl e)
      with True a c1 show ?thesis by (subst verifyLoop.simps) simp
    next
      case (Inr verified)
      with True a c1 "1.IH"[OF True a[symmetric] Inr] show ?thesis
        by (subst verifyLoop.simps) simp
    qed
  qed
qed

lemma failCombination_counts:
  "failCombination e r s = (r', s') \<Longrightarrow>
   cr_status r' = FAILED \<and> counts s' = (totalTests s + 1, passedTests s, failedTests s + 1)"
  by (auto simp: failCombination_def) (simp add: counts_def)

lemma classify_counts:
  "classify tv r s = (r', s') \<Longrightarrow>
   cr_status r' = PASSED \<and> counts s' = (totalTests s + 1, passedTests s + 1, failedTests s)"
  by (auto simp: classify_def Let_def split: if_splits) (simp_all add: counts_def countPassed_def)

lemma failCombination_v5_counts:
  "failCombination_v5 e r s = (r', s') \<Longrightarrow>
   cr_status r' = FAILED \<and> counts s' = (totalTests s + 1, passedTests s, failedTests s + 1)"
  by (auto simp: failCombination_v5_def) (simp add: counts_def)

lemma counts_validateTileCount_v5 [simp]:
  "counts (snd (validateTileCount_v5 D n s)) = counts s"
  unfolding validateTileCount_v5_def
proof (rule counts_executeWithRetry)
  fix s :: "'a tester"
  let ?s0 = "s\<lparr>currentOperation := Some ''tileValidation''\<rparr>"
  show "counts (snd (case driverCall (wdCountTiles D) ?s0 of
           (Inl e, s1) \<Rightarrow> (Inl e, s1)
         | (Inr tileCount, s1) \<Rightarrow>
             (Inr (tileInfo.extend tileCount \<lparr>tv_status = VALIDATED\<rparr>),
              captureValidation (Msg ''Tile count validated for combo'') False s1))) = counts s"
    by (cases "driverCall (wdCountTiles D) ?s0")
       (use counts_driverCall[of "wdCountTiles D" ?s0] in \<open>auto split: sum.splits\<close>)
qed

lemma testSingleCombination_counts:
  assumes "testSingleCombination D sel els n s = (r, s')"
  shows "(cr_status r = PASSED \<and> counts s' = (totalTests s + 1, passedTests s + 1, failedTests s))
       \<or> (cr_status r = FAILED \<and> counts s' = (totalTests s + 1, passedTests s, failedTests s + 1))"
proof -
  obtain eo opts s1 where v: "verifyLoop D els sel 0 [] s = ((eo, opts), s1)"
    by (metis prod.exhaust)
  have c1: "counts s1 = counts s" using counts_verifyLoop[of D els sel 0 "[]" s] v by simp
  obtain r2 s2 where t: "validateTileCount D n s1 = (r2, s2)" by (cases "validateTileCount D n s1")
  have c2: "counts s2 = counts s" using counts_validateTileCount[of D n s1] t c1 by simp
  show ?thesis
  proof (cases eo)
    case (Some e)
    then show ?thesis
      using assms v c1 failCombination_counts[of e _ s1 r s']
      by (simp add: testSingleCombination_def counts_def)
  next
    case None
    show ?thesis
    proof (cases r2)
      case (Inl e)
      then show ?thesis
        using assms v None t c2 failCombination_counts[of e _ s2 r s']
        by (simp add: testSingleCombination_def counts_def)
    next
      case (Inr tv)
      obtain r3 s3 where so: "validateSortByForVisibleTiles D n sel (Some tv) s2 = (r3, s3)"
        by (cases "validateSortByForVisibleTiles D n sel (Some tv) s2")
      have c3: "counts s3 = counts s"
        using counts_validateSortBy[of D n sel "Some tv" s2] so c2 by simp
      show ?thesis
      proof (cases r3)
        case (Inl e)
        then show ?thesis
          using assms v None t Inr so c3 failCombination_counts[of e _ s3 r s']
          by (simp add: testSingleCombination_def Let_def counts_def)
      next
        case (Inr sv)
        then show ?thesis
          using assms v None t \<open>r2 = Inr tv\<close> so c3 classify_counts[of tv _ s3 r s']
          by (simp add: testSingleCombination_def Let_def counts_def)
      qed
    qed
  qed
qed

lemma testSingleCombination_v5_counts:
  assumes "testSingleCombination_v5 D sel els n s = (r, s')"
  shows "(cr_status r = PASSED \<and> counts s' = (totalTests s + 1, passedTests s + 1, failedTests s))
       \<or> (cr_status r = FAILED \<and> counts s' = (totalTests s + 1, passedTests s, failedTests s + 1))"
proof -
  obtain eo opts s1 where v: "verifyLoop D els sel 0 [] s = ((eo, opts), s1)"
    by (metis prod.exhaust)
  have c1: "counts s1 = counts s" using counts_verifyLoop[of D els sel 0 "[]" s] v by simp
  obtain r2 s2 where t: "validateTileCount_v5 D n s1 = (r2, s2)"
    by (cases "validateTileCount_v5 D n s1")
  have c2: "counts s2 = counts s" using counts_validateTileCount_v5[of D n s1] t c1 by simp
  show ?thesis
  proof (cases eo)
    case (Some e)
    then show ?thesis
      using assms v c1 failCombination_v5_counts[of e _ s1 r s']
      by (simp add: testSingleCombination_v5_def counts_def)
  next
    case None
    show ?thesis
    proof (cases r2)
      case (Inl e)
      then show ?thesis
        using assms v None t c2 failCombination_v5_counts[of e _ s2 r s']
        by (simp add: testSingleCombination_v5_def counts_def)
    next
      case (Inr tv)
      have "counts (captureValidation (Msg ''Combo passed with tile validation'') False
                      (countPassed s2))
              = (totalTests s + 1, passedTests s + 1, failedTests s)"
        using c2 by (simp add: countPassed_def) (simp add: counts_def)
      then show ?thesis
        using assms v None t Inr by (auto simp: testSingleCombination_v5_def)
    qed
  qed
qed

text \<open>
  C10.  Every call of \<open>testSingleCombination\<close> adds exactly one to \<open>totalTests\<close> and
  exactly one to exactly one of \<open>passedTests\<close> and \<open>failedTests\<close> (the former when
  the result is PASSED, the latter when it is FAILED, the catch path), so
  \<open>totalTests = passedTests + failedTests\<close> is kept.  This holds for the function of
  the latest CompactDropdownTester and for the one of dropdown-validator5.js.
\<close>

theorem testSingleCombination_counts_once:
  "(testSingleCombination D sel els n s = (r, s') \<longrightarrow>
      totalTests s' = totalTests s + 1
      \<and> (cr_status r = PASSED \<and> passedTests s' = passedTests s + 1
            \<and> failedTests s' = failedTests s
         \<or> cr_status r = FAILED \<and> passedTests s' = passedTests s
            \<and> failedTests s' = failedTests s + 1)
      \<and> (totalTests s = passedTests s + failedTests s
           \<longrightarrow> totalTests s' = passedTests s' + failedTests s'))
   \<and> (testSingleCombination_v5 D sel els n s = (r5, s5) \<longrightarrow>
      totalTests s5 = totalTests s + 1
      \<and> (cr_status r5 = PASSED \<and> passedTests s5 = passedTests s + 1
            \<and> failedTests s5 = failedTests s
         \<or> cr_status r5 = FAILED \<and> passedTests s5 = passedTests s
            \<and> failedTests s5 = failedTests s + 1)
      \<and> (totalTests s = passedTests s + failedTests s
           \<longrightarrow> totalTests s5 = passedTests s5 + failedTests s5))"
  using testSingleCombination_counts[of D sel els n s r s']
        testSingleCombination_v5_counts[of D sel els n s r5 s5]
  by (auto simp: counts_def)

theorem testSingleCombination_counts_once_witness:
  "totalTests (snd (testSingleCombination toySession [opt1 ''a'' ''A'' 0] [0] 1
                      (newTester stubbornPage))) = 1
   \<and> passedTests (snd (testSingleCombination toySession [opt1 ''a'' ''A'' 0] [0] 1
                         (newTester stubbornPage)))
     + failedTests (snd (testSingleCombination toySession [opt1 ''a'' ''A'' 0] [0] 1
                           (newTester stubbornPage))) = 1
   \<and> totalTests (snd (testSingleCombination_v5 toySession [opt1 ''a'' ''A'' 0] [0] 1
                        (newTester stubbornPage))) = 1
   \<and> passedTests (snd (testSingleCombination_v5 toySession [opt1 ''a'' ''A'' 0] [0] 1
                         (newTester stubbornPage)))
     + failedTests (snd (testSingleCombination_v5 toySession [opt1 ''a'' ''A'' 0] [0] 1
                           (newTester stubbornPage))) = 1"
  using testSingleCombination_counts_once
          [of toySession "[opt1 ''a'' ''A'' 0]" "[0]" 1 "newTester stubbornPage"
              "fst (testSingleCombination toySession [opt1 ''a'' ''A'' 0] [0] 1
                      (newTester stubbornPage))"
              "snd (testSingleCombination toySession [opt1 ''a'' ''A'' 0] [0] 1
                      (newTester stubbornPage))"
              "fst (testSingleCombination_v5 toySession [opt1 ''a'' ''A'' 0] [0] 1
                      (newTester stubbornPage))"
              "snd (testSingleCombination_v5 toySession [opt1 ''a'' ''A'' 0] [0] 1
                      (newTester stubbornPage))"]
  by (simp add: newTester_def)

section \<open>Classifying one combination\<close>

lemma executeWithRetry_first:
  "0 < m \<Longrightarrow> f (s\<lparr>currentOperation := Some n\<rparr>) = (Inr v, s1) \<Longrightarrow>
   executeWithRetry D n f m s = (Inr v, s1\<lparr>retryCounts := (retryCounts s1)(n \<mapsto> 0)\<rparr>)"
  by (simp add: executeWithRetry_def retryLoop_success recordSuccess_def)

lemma sortOp_one_tile:
  "ti_visible td = 1 \<Longrightarrow>
   sortOp D sel (Some td) s =
     (Inr \<lparr>sv_status = Sort_NOT_APPLICABLE, sv_reason = InsufficientTiles, sv_tilesToSort = 1,
           sv_sortValidationApplicable = False, sv_sortControlsFound = 0,
           sv_currentSortStatus = None\<rparr>,
      s\<lparr>currentOperation := Some ''sortByValidation''\<rparr>)"
  by (simp add: sortOp_def sortAfterNoResultsCheck_def visibleOf_def)

lemma validateSortBy_one_tile:
  "ti_visible td = 1 \<Longrightarrow>
   validateSortByForVisibleTiles D comboNumber selection (Some td) s =
     (Inr \<lparr>sv_status = Sort_NOT_APPLICABLE, sv_reason = InsufficientTiles, sv_tilesToSort = 1,
           sv_sortValidationApplicable = False, sv_sortControlsFound = 0,
           sv_currentSortStatus = None\<rparr>,
      s\<lparr>currentOperation := Some ''sortByValidation'',
        retryCounts := (retryCounts s)(''sortByValidation'' \<mapsto> 0)\<rparr>)"
  by (simp add: validateSortByForVisibleTiles_def executeWithRetry_first[OF _ sortOp_one_tile])



lemma classify_status [simp]: "cr_status (fst (classify tv r s)) = PASSED"
  by (simp add: classify_def Let_def split: prod.splits)

lemma failCombination_status [simp]: "cr_status (fst (failCombination e r s)) = FAILED"
  by (simp add: failCombination_def)






lemma classify_sortByValidation [simp]:
  "cr_sortByValidation (fst (classify tv r s)) = cr_sortByValidation r"
  by (simp add: classify_def Let_def split: prod.splits)

lemma testSingleCombination_one_tile:
  assumes v: "fst (fst (verifyLoop D els sel 0 [] s)) = None"
    and t: "fst (validateTileCount D n (snd (verifyLoop D els sel 0 [] s))) = Inr tv"
    and z: "ti_visible tv = 1"
  shows "cr_status (fst (testSingleCombination D sel els n s)) = PASSED
       \<and> sv_status (cr_sortByValidation (fst (testSingleCombination D sel els n s)))
           = Sort_NOT_APPLICABLE
       \<and> sv_reason (cr_sortByValidation (fst (testSingleCombination D sel els n s)))
           = InsufficientTiles"
proof -
  obtain opts s1 where v': "verifyLoop D els sel 0 [] s = ((None, opts), s1)"
    using v by (metis prod.collapse)
  obtain s2 where t': "validateTileCount D n s1 = (Inr tv, s2)"
    using t v' by (metis prod.collapse snd_conv)
  show ?thesis
    using v' t' validateSortBy_one_tile[OF z, of D n sel s2]
    by (simp add: testSingleCombination_def Let_def)
qed

text \<open>
  C8 (sort validation with a single tile).  When the tile observation reports exactly
  one visible tile, \<open>validateSortByForVisibleTiles\<close> returns \<open>NOT_APPLICABLE\<close> with
  the insufficient-tiles reason on its first attempt.  The page in the state it returns
  is the page it was given, whatever the session is: neither the sort-controls script nor
  the script that compares the tile titles is run.  The combination itself is PASSED and
  carries this sort-by record.
\<close>

theorem one_tile_sort_not_applicable:
  "(ti_visible td = 1 \<longrightarrow>
      validateSortByForVisibleTiles D comboNumber selection (Some td) s =
        (Inr \<lparr>sv_status = Sort_NOT_APPLICABLE, sv_reason = InsufficientTiles,
              sv_tilesToSort = 1, sv_sortValidationApplicable = False,
              sv_sortControlsFound = 0, sv_currentSortStatus = None\<rparr>,
         s\<lparr>currentOperation := Some ''sortByValidation'',
           retryCounts := (retryCounts s)(''sortByValidation'' \<mapsto> 0)\<rparr>))
   \<and> (fst (fst (verifyLoop D els selection 0 [] s)) = None
      \<and> fst (validateTileCount D comboNumber (snd (verifyLoop D els selection 0 [] s))) = Inr td
      \<and> ti_visible td = 1
      \<longrightarrow> cr_status (fst (testSingleCombination D selection els comboNumber s)) = PASSED
          \<and> sv_status (cr_sortByValidation
                (fst (testSingleCombination D selection els comboNumber s))) = Sort_NOT_APPLICABLE
          \<and> sv_reason (cr_sortByValidation
                (fst (testSingleCombination D selection els comboNumber s))) = InsufficientTiles)"
  using validateSortBy_one_tile[of td D comboNumber selection s]
        testSingleCombination_one_tile[of D els selection s comboNumber td]
  by blast

theorem one_tile_sort_not_applicable_witness:
  "sv_status (projr (fst (validateSortByForVisibleTiles deadSession 1 [opt1 ''a'' ''A'' 0]
                            (Some oneTile) (newTester (0::nat))))) = Sort_NOT_APPLICABLE
   \<and> page (snd (validateSortByForVisibleTiles deadSession 1 [opt1 ''a'' ''A'' 0]
                   (Some oneTile) (newTester (0::nat)))) = 0
   \<and> cr_status (fst (testSingleCombination toySession [opt1 ''a'' ''A'' 0] [0] 1
                       (newTester oneTilePage))) = PASSED
   \<and> sv_reason (cr_sortByValidation
         (fst (testSingleCombination toySession [opt1 ''a'' ''A'' 0] [0] 1
                 (newTester oneTilePage)))) = InsufficientTiles"
proof -
  let ?sel = "[opt1 ''a'' ''A'' 0]"
  let ?tv = "tileInfo.extend (tp_tiles oneTilePage) \<lparr>tv_status = VALIDATED\<rparr>"
  have a: "ti_visible oneTile = 1" by (simp add: oneTile_def)
  have v: "fst (fst (verifyLoop toySession [0] ?sel 0 [] (newTester oneTilePage))) = None"
    by code_simp
  have t: "fst (validateTileCount toySession 1
                  (snd (verifyLoop toySession [0] ?sel 0 [] (newTester oneTilePage))))
             = Inr ?tv"
    by code_simp
  have o: "ti_visible ?tv = 1" by code_simp
  let ?s = "newTester (0::nat)"
  have A: "validateSortByForVisibleTiles deadSession 1 ?sel (Some oneTile) ?s =
             (Inr \<lparr>sv_status = Sort_NOT_APPLICABLE, sv_reason = InsufficientTiles,
                   sv_tilesToSort = 1, sv_sortValidationApplicable = False,
                   sv_sortControlsFound = 0, sv_currentSortStatus = None\<rparr>,
              ?s\<lparr>currentOperation := Some ''sortByValidation'',
                 retryCounts := (retryCounts ?s)(''sortByValidation'' \<mapsto> 0)\<rparr>)"
    by (rule one_tile_sort_not_applicable
              [of oneTile deadSession 1 ?sel ?s "[]", THEN conjunct1, THEN mp, OF a])
  have B: "cr_status (fst (testSingleCombination toySession ?sel [0] 1
                             (newTester oneTilePage))) = PASSED
           \<and> sv_reason (cr_sortByValidation
                 (fst (testSingleCombination toySession ?sel [0] 1
                         (newTester oneTilePage)))) = InsufficientTiles"
    using one_tile_sort_not_applicable[of ?tv toySession 1 ?sel "newTester oneTilePage" "[0]"]
          v t o
    by blast
  have A': "sv_status (projr (fst (validateSortByForVisibleTiles deadSession 1 ?sel
                                     (Some oneTile) ?s))) = Sort_NOT_APPLICABLE
            \<and> page (snd (validateSortByForVisibleTiles deadSession 1 ?sel
                            (Some oneTile) ?s)) = 0"
    unfolding A by (simp add: newTester_def)
  show ?thesis using A' B by blast
qed

section \<open>Stuck recovery\<close>

lemma captured_flush [simp]: "captured (flushValidationBuffer s) = captured s"
  by (simp add: captured_def flushValidationBuffer_def)

lemma captured_capture [simp]: "captured (captureValidation e b s) = captured s @ [e]"
  by (simp add: captureValidation_def Let_def) (simp add: captured_def)

lemma captured_update [simp]:
  "captured (s\<lparr>page := p\<rparr>) = captured s"
  "captured (s\<lparr>retryCounts := rc\<rparr>) = captured s"
  "captured (s\<lparr>currentOperation := co\<rparr>) = captured s"
  "captured (s\<lparr>isRecovering := ir\<rparr>) = captured s"
  "captured (s\<lparr>totalTests := n\<rparr>) = captured s"
  "captured (s\<lparr>passedTests := n\<rparr>) = captured s"
  "captured (s\<lparr>failedTests := n\<rparr>) = captured s"
  by (simp_all add: captured_def)

lemma captured_driverCall [simp]: "captured (snd (driverCall f s)) = captured s"
  by (simp add: driverCall_def split: prod.splits)

lemma retryCounts_flush [simp]: "retryCounts (flushValidationBuffer s) = retryCounts s"
  by (simp add: flushValidationBuffer_def)

lemma retryCounts_capture [simp]: "retryCounts (captureValidation e b s) = retryCounts s"
  by (simp add: captureValidation_def Let_def)

lemma retryCounts_driverCall [simp]: "retryCounts (snd (driverCall f s)) = retryCounts s"
  by (simp add: driverCall_def split: prod.splits)

lemma retryCount_cong: "retryCounts a = retryCounts b \<Longrightarrow> retryCount a n = retryCount b n"
  by (simp add: retryCount_def)

lemma page_flush [simp]: "page (flushValidationBuffer s) = page s"
  by (simp add: flushValidationBuffer_def)

lemma page_capture [simp]: "page (captureValidation e b s) = page s"
  by (simp add: captureValidation_def Let_def)

lemma buffer_capture_immediate [simp]:
  "validationBuffer (captureValidation e True s) = []"
  by (simp add: captureValidation_def flushValidationBuffer_def)

lemma log_capture_immediate [simp]:
  "validationLog (captureValidation e True s) = captured s @ [e]"
  by (simp add: captureValidation_def flushValidationBuffer_def captured_def)



lemma retryCounts_hardRestart [simp]: "retryCounts (hardRestart D s) = retryCounts s"
  by (simp add: hardRestart_def ignoreErrors_def)

lemma hardRestart_effect:
  "validationBuffer (hardRestart D s) = []
   \<and> validationLog (hardRestart D s)
       = captured s @ [Msg ''INITIATING HARD RESTART'', Msg ''Restart complete'']
   \<and> page (hardRestart D s) = snd (wdQuit D (page s))"
  by (simp add: hardRestart_def ignoreErrors_def)
     (simp add: driverCall_def split: prod.splits)

lemma captured_hardRestart [simp]:
  "captured (hardRestart D s)
     = captured s @ [Msg ''INITIATING HARD RESTART'', Msg ''Restart complete'']"
  using hardRestart_effect[of D s] by (simp add: captured_def[of "hardRestart D s"])


lemma captured_beginRecovery [simp]:
  "captured (beginRecovery s) = captured s @ [Msg ''Attempting stuck recovery'']"
  by (simp add: beginRecovery_def)



lemma isRecovering_recover: "\<not> isRecovering (recoverFromStuckState D s) \<or> isRecovering s"
  by (simp add: recoverFromStuckState_def)




section \<open>Completeness of the enumeration\<close>

lemma retryLoop_Inr_from_op:
  "retryLoop D n f m attempt s = (Inr v, s') \<Longrightarrow> \<exists>s0 s1. f s0 = (Inr v, s1)"
proof (induction D n f m attempt s rule: retryLoop.induct)
  case (1 D opName opFn maxRetries attempt s)
  show ?case
  proof (cases "attempt \<le> maxRetries")
    case False
    with "1.prems" show ?thesis by (simp add: retryLoop_done)
  next
    case le: True
    obtain r s1 where o: "opFn s = (r, s1)" by (cases "opFn s")
    show ?thesis
    proof (cases r)
      case (Inr w)
      with "1.prems" le o have "w = v" by (simp add: retryLoop_success)
      with Inr o show ?thesis by blast
    next
      case (Inl e)
      show ?thesis
      proof (cases "attempt < maxRetries")
        case False
        with "1.prems" le o Inl
        have "retryLoop D opName opFn maxRetries (attempt + 1) (recordFailure opName s1)
                = (Inr v, s')"
          by (simp add: retryLoop_last_failure)
        then show ?thesis using "1.IH"(2)[OF le o[symmetric] Inl False] by blast
      next
        case lt: True
        obtain r3 s3 where p: "performRecovery D opName (recordFailure opName s1) = (r3, s3)"
          by (cases "performRecovery D opName (recordFailure opName s1)")
        show ?thesis
        proof (cases r3)
          case (Inl e')
          with "1.prems" lt o \<open>r = Inl e\<close> p show ?thesis
            by (simp add: retryLoop_recovery_throws)
        next
          case (Inr u)
          with "1.prems" lt o \<open>r = Inl e\<close> p
          have "retryLoop D opName opFn maxRetries (attempt + 1) s3 = (Inr v, s')"
            by (simp add: retryLoop_retry)
          then show ?thesis
            using "1.IH"(1)[OF le o[symmetric] \<open>r = Inl e\<close> lt p[symmetric] Inr] by blast
        qed
      qed
    qed
  qed
qed




lemma cr_options_classify [simp]: "cr_options (fst (classify tv r s)) = cr_options r"
  by (simp add: classify_def Let_def split: prod.splits)

lemma cr_options_failCombination [simp]:
  "cr_options (fst (failCombination e r s)) = cr_options r"
  by (simp add: failCombination_def)

lemma cr_status_classify [simp]: "cr_status (fst (classify tv r s)) = PASSED"
  by (simp add: classify_def Let_def split: prod.splits)

lemma cr_status_failCombination [simp]: "cr_status (fst (failCombination e r s)) = FAILED"
  by (simp add: failCombination_def)




















section \<open>The reset between sibling options\<close>

lemma selectionsMade_capture:
  "selectionsMade (captureValidation e b s)
     = selectionsMade s @ (if isSelected e then [e] else [])"
  by (simp add: selectionsMade_def)

lemma selectionsMade_update [simp]:
  "selectionsMade (s\<lparr>page := p\<rparr>) = selectionsMade s"
  "selectionsMade (s\<lparr>retryCounts := rc\<rparr>) = selectionsMade s"
  "selectionsMade (s\<lparr>currentOperation := co\<rparr>) = selectionsMade s"
  by (simp_all add: selectionsMade_def)

lemma selectionsMade_driverCall [simp]:
  "selectionsMade (snd (driverCall f s)) = selectionsMade s"
  by (simp add: selectionsMade_def)

lemma captured_elementCall [simp]: "captured (snd (elementCall f el s)) = captured s"
  by (simp add: elementCall_def split: option.splits)


lemma selectionsMade_recordSuccess [simp]:
  "selectionsMade (recordSuccess n k s) = selectionsMade s"
  by (simp add: recordSuccess_def Let_def selectionsMade_capture isSelected_def)

lemma selectionsMade_recordFailure [simp]:
  "selectionsMade (recordFailure n s) = selectionsMade s"
  by (simp add: recordFailure_def)

















section \<open>General properties of the retry executor\<close>

lemma retryCount_recordFailure:
  "retryCount (recordFailure n s) n = retryCount s n + 1"
  by (simp add: recordFailure_def retryCount_def)

lemma retryCount_recordSuccess: "retryCount (recordSuccess n k s) n = 0"
  by (simp add: recordSuccess_def Let_def retryCount_def)

lemma retryLoop_value_resets_counter:
  "retryLoop D n f m attempt s = (Inr v, s') \<Longrightarrow> retryCount s' n = 0"
proof (induction D n f m attempt s rule: retryLoop.induct)
  case (1 D opName opFn maxRetries attempt s)
  show ?case
  proof (cases "attempt \<le> maxRetries")
    case False
    with "1.prems" show ?thesis by (simp add: retryLoop_done)
  next
    case le: True
    obtain r s1 where o: "opFn s = (r, s1)" by (cases "opFn s")
    show ?thesis
    proof (cases r)
      case (Inr w)
      with "1.prems" le o have "s' = recordSuccess opName attempt s1"
        by (simp add: retryLoop_success)
      then show ?thesis by (simp add: retryCount_recordSuccess)
    next
      case (Inl e)
      show ?thesis
      proof (cases "attempt < maxRetries")
        case False
        with "1.prems" le o Inl
        have "retryLoop D opName opFn maxRetries (attempt + 1) (recordFailure opName s1)
                = (Inr v, s')"
          by (simp add: retryLoop_last_failure)
        then show ?thesis using "1.IH"(2)[OF le o[symmetric] Inl False] by blast
      next
        case lt: True
        obtain r3 s3 where p: "performRecovery D opName (recordFailure opName s1) = (r3, s3)"
          by (cases "performRecovery D opName (recordFailure opName s1)")
        show ?thesis
        proof (cases r3)
          case (Inl e')
          with "1.prems" lt o \<open>r = Inl e\<close> p show ?thesis
            by (simp add: retryLoop_recovery_throws)
        next
          case (Inr u)
          with "1.prems" lt o \<open>r = Inl e\<close> p
          have "retryLoop D opName opFn maxRetries (attempt + 1) s3 = (Inr v, s')"
            by (simp add: retryLoop_retry)
          then show ?thesis
            using "1.IH"(1)[OF le o[symmetric] \<open>r = Inl e\<close> lt p[symmetric] Inr] by blast
        qed
      qed
    qed
  qed
qed

text \<open>
  Whenever \<open>executeWithRetry\<close> returns a value, it is a value the operation returned,
  and the counter of the operation name is 0.
\<close>

lemma executeWithRetry_value:
  "executeWithRetry D n f m s = (Inr v, s') \<Longrightarrow>
   retryCount s' n = 0 \<and> (\<exists>s0 s1. f s0 = (Inr v, s1))"
  unfolding executeWithRetry_def
  by (blast dest: retryLoop_value_resets_counter retryLoop_Inr_from_op)

text \<open>
  With an operation that always fails and a recovery that never rejects (as for every
  operation name other than 'navigation' and 'dropdownFinding'), the loop ends with the
  exhaustion error.
\<close>

lemma retryLoop_exhausts:
  assumes "\<And>s. isl (fst (f s))" and "\<And>s. \<not> isl (fst (performRecovery D n s))"
  shows "fst (retryLoop D n f m attempt s) = Inl (OpFailedAfter n m)"
  using assms
proof (induction D n f m attempt s rule: retryLoop.induct)
  case (1 D opName opFn maxRetries attempt s)
  show ?case
  proof (cases "attempt \<le> maxRetries")
    case False
    then show ?thesis by (simp add: retryLoop_done)
  next
    case le: True
    obtain r s1 where o: "opFn s = (r, s1)" by (cases "opFn s")
    then obtain e where Inl: "r = Inl e" using "1.prems"(1)[of s] by (cases r) simp_all
    show ?thesis
    proof (cases "attempt < maxRetries")
      case False
      show ?thesis
        using "1.IH"(2)[OF le o[symmetric] Inl False "1.prems"] le False o Inl
        by (simp add: retryLoop_last_failure)
    next
      case lt: True
      obtain r3 s3 where p: "performRecovery D opName (recordFailure opName s1) = (r3, s3)"
        by (cases "performRecovery D opName (recordFailure opName s1)")
      then obtain u where Inr: "r3 = Inr u"
        using "1.prems"(2)[of "recordFailure opName s1"] by (cases r3) simp_all
      show ?thesis
        using "1.IH"(1)[OF le o[symmetric] Inl lt p[symmetric] Inr "1.prems"] lt o Inl p Inr
        by (simp add: retryLoop_retry)
    qed
  qed
qed

lemma performRecovery_default:
  "n \<noteq> ''navigation'' \<Longrightarrow> n \<noteq> ''dropdownFinding'' \<Longrightarrow> performRecovery D n s = (Inr (), s)"
  by (simp add: performRecovery_def)

lemma executeWithRetry_exhausts:
  assumes "\<And>s. isl (fst (f s))" and "n \<noteq> ''navigation''" and "n \<noteq> ''dropdownFinding''"
  shows "fst (executeWithRetry D n f m s) = Inl (OpFailedAfter n m)"
  unfolding executeWithRetry_def
  by (rule retryLoop_exhausts) (simp_all add: assms performRecovery_default)

end
